theory Spec2Isabelle
  imports
    Complex_Main
    "HOL-Library.Char_ord"
    "HOL-Library.List_Lexorder"
    "HOL-Library.Product_Lexorder"
begin

section \<open>Values of the JavaScript runtime\<close>

text \<open>
  The request bodies, query strings and path parameters that \<^verbatim>\<open>server.js\<close> reads are
  JavaScript values produced by \<^verbatim>\<open>express.json()\<close> and the router. A Number is a double:
  every finite double is a rational, so \<open>Fin\<close> carries the exact value and the three
  non-finite Numbers are constructors of their own. An object is the list of its own
  properties (the first binding of a key is the effective one).
\<close>

datatype jsnum = NaN | NegInf | Fin rat | PosInf

datatype jsval =
    JUndefined
  | JNull
  | JBool bool
  | JNum jsnum
  | JStr string
  | JArr "jsval list"
  | JObj "(string \<times> jsval) list"

text \<open>
  Every \<^verbatim>\<open>throw\<close> ends in the handler's \<^verbatim>\<open>catch\<close>: a \<open>TypeError\<close> of the runtime, or
  an error of \<^verbatim>\<open>pool.query\<close> (the store rejected the statement or one of its parameters).
\<close>

datatype error = TypeError | StoreError

text \<open>
  \<^verbatim>\<open>IsLessThan\<close> on Numbers (ECMAScript, Number::lessThan): \<open>None\<close> is the result
  \<^verbatim>\<open>undefined\<close>, which a NaN operand gives.
\<close>

fun IsLessThan :: "jsnum \<Rightarrow> jsnum \<Rightarrow> bool option" where
  "IsLessThan NaN _ = None"
| "IsLessThan _ NaN = None"
| "IsLessThan (Fin a) (Fin b) = Some (a < b)"
| "IsLessThan NegInf NegInf = Some False"
| "IsLessThan PosInf PosInf = Some False"
| "IsLessThan PosInf _ = Some False"
| "IsLessThan _ PosInf = Some True"
| "IsLessThan _ NegInf = Some False"
| "IsLessThan NegInf _ = Some True"

text \<open>\<^verbatim>\<open>!v\<close> is false exactly on the truthy values.\<close>

fun truthy :: "jsval \<Rightarrow> bool" where
  "truthy JUndefined = False"
| "truthy JNull = False"
| "truthy (JBool b) = b"
| "truthy (JNum NaN) = False"
| "truthy (JNum (Fin q)) = (q \<noteq> 0)"
| "truthy (JNum _) = True"
| "truthy (JStr s) = (s \<noteq> [])"
| "truthy (JArr _) = True"
| "truthy (JObj _) = True"

fun isArray :: "jsval \<Rightarrow> bool" where
  "isArray (JArr _) = True"
| "isArray _ = False"

text \<open>
  \<^verbatim>\<open>v.k\<close> for the keys the handlers read (none of them is a property of a prototype):
  a \<open>TypeError\<close> on \<^verbatim>\<open>undefined\<close> and \<^verbatim>\<open>null\<close>, the own property of an object,
  \<^verbatim>\<open>undefined\<close> otherwise.
\<close>

fun get_prop :: "jsval \<Rightarrow> string \<Rightarrow> error + jsval" where
  "get_prop JUndefined k = Inl TypeError"
| "get_prop JNull k = Inl TypeError"
| "get_prop (JObj kvs) k = Inr (case map_of kvs k of None \<Rightarrow> JUndefined | Some v \<Rightarrow> v)"
| "get_prop _ k = Inr JUndefined"

section \<open>The store: tables and rows\<close>

text \<open>
  The two tables that \<^verbatim>\<open>initDatabase\<close> creates, with the columns of the
  \<^verbatim>\<open>CREATE TABLE\<close> statements. A nullable column is an \<open>option\<close> (\<open>None\<close> is SQL NULL);
  \<^verbatim>\<open>name\<close> is \<^verbatim>\<open>NOT NULL\<close>, and the two \<^verbatim>\<open>timestamp\<close> columns are never written
  but by their default, \<^verbatim>\<open>CURRENT_TIMESTAMP\<close>. Instants are microseconds since the
  epoch (UTC), dates are days since the epoch. A table is the list of its rows.
\<close>

record reading =
  sp_id :: int
  sp_name :: string
  sp_power :: "rat option"
  sp_efficiency :: "int option"
  sp_status :: "string option"
  sp_temp :: "int option"
  sp_dirt_level :: "int option"
  sp_dust_accumulation :: "string option"
  sp_timestamp :: int

record daily =
  ds_id :: int
  ds_date :: int
  ds_total_power :: "rat option"
  ds_avg_efficiency :: "rat option"
  ds_total_energy :: "rat option"
  ds_clean_panels :: "int option"
  ds_dirty_panels :: "int option"
  ds_timestamp :: int

record db =
  solar_panels :: "reading list"
  solar_panels_id_seq :: int
  daily_stats :: "daily list"
  daily_stats_id_seq :: int

definition initDatabase :: db where
  "initDatabase =
     \<lparr>solar_panels = [], solar_panels_id_seq = 1, daily_stats = [], daily_stats_id_seq = 1\<rparr>"

text \<open>
  \<^verbatim>\<open>date DATE NOT NULL UNIQUE\<close>: the constraint the table is created with, as a
  predicate on a state.
\<close>

definition unique_dates :: "db \<Rightarrow> bool" where
  "unique_dates s = distinct (map ds_date (daily_stats s))"

section \<open>The environment of the handlers\<close>

text \<open>
  What the handlers leave to the JavaScript runtime and to PostgreSQL is a parameter of
  the model, \<open>env\<close>:
  \<^item> \<open>StringToNumber\<close>: a String read as a Number (NaN when it is no numeric literal);
  \<^item> \<open>ObjectToPrimitive\<close>: \<^verbatim>\<open>ToPrimitive\<close> with hint number on an array or object, its
    \<^verbatim>\<open>toString\<close> or a \<open>TypeError\<close>;
  \<^item> \<open>varchar_in\<close>, \<open>numeric_in\<close>, \<open>integer_in\<close>, \<open>bigint_in\<close>: the value the store reads
    from a query parameter that is not NULL, for a column or expression of that type
    (\<open>VARCHAR(n)\<close> or unbounded, \<open>DECIMAL(p,s)\<close>, \<open>INTEGER\<close>, \<open>BIGINT\<close>); \<open>None\<close> when it
    rejects the parameter;
  \<^item> \<open>other_interval now lit\<close>: the instant \<^verbatim>\<open>NOW() - INTERVAL 'lit'\<close> at the instant
    \<open>now\<close> for a literal that is not a decimal numeral of days, \<open>None\<close> when the store
    rejects the literal or the result;
  \<^item> \<open>other_sql\<close>: what the store does with a statement text whose shape is not the one
    the handler wrote (a quote inside an interpolated value ends the literal).
  The theorems hold for every environment.
\<close>

record env =
  StringToNumber :: "string \<Rightarrow> jsnum"
  ObjectToPrimitive :: "jsval \<Rightarrow> error + string"
  varchar_in :: "nat option \<Rightarrow> jsval \<Rightarrow> string option"
  numeric_in :: "nat \<Rightarrow> nat \<Rightarrow> jsval \<Rightarrow> rat option"
  integer_in :: "jsval \<Rightarrow> int option"
  bigint_in :: "jsval \<Rightarrow> int option"
  other_interval :: "int \<Rightarrow> string \<Rightarrow> int option"
  other_sql :: "string \<Rightarrow> int \<Rightarrow> db \<Rightarrow> db \<times> (error + nat)"

text \<open>
  The clocks a request reads: \<open>pg_now k\<close> is \<^verbatim>\<open>CURRENT_TIMESTAMP\<close> (or \<^verbatim>\<open>NOW()\<close>) of the
  \<open>k\<close>-th statement the request sends, in microseconds; \<open>js_now k\<close> is its \<open>k\<close>-th
  \<^verbatim>\<open>new Date()\<close>, in milliseconds.
\<close>

record clock =
  pg_now :: "nat \<Rightarrow> int"
  js_now :: "nat \<Rightarrow> int"

section \<open>Comparisons in the filter callbacks\<close>

fun ToNumber :: "env \<Rightarrow> jsval \<Rightarrow> error + jsnum" where
  "ToNumber rt JUndefined = Inr NaN"
| "ToNumber rt JNull = Inr (Fin 0)"
| "ToNumber rt (JBool b) = Inr (Fin (if b then 1 else 0))"
| "ToNumber rt (JNum n) = Inr n"
| "ToNumber rt (JStr s) = Inr (StringToNumber rt s)"
| "ToNumber rt v =
     (case ObjectToPrimitive rt v of
        Inl e \<Rightarrow> Inl e
      | Inr s \<Rightarrow> Inr (StringToNumber rt s))"

text \<open>
  \<^verbatim>\<open>v < n\<close> and \<^verbatim>\<open>v >= n\<close> for a Number literal \<open>n\<close> on the right: the left operand is
  converted by \<open>ToNumber\<close>; \<^verbatim>\<open><\<close> maps \<^verbatim>\<open>undefined\<close> to false, \<^verbatim>\<open>>=\<close> is false when
  \<open>IsLessThan\<close> is true or \<^verbatim>\<open>undefined\<close>.
\<close>

definition js_lt :: "env \<Rightarrow> jsval \<Rightarrow> rat \<Rightarrow> error + bool" where
  "js_lt rt v n =
     (case ToNumber rt v of
        Inl e \<Rightarrow> Inl e
      | Inr x \<Rightarrow> Inr (case IsLessThan x (Fin n) of None \<Rightarrow> False | Some b \<Rightarrow> b))"

definition js_ge :: "env \<Rightarrow> jsval \<Rightarrow> rat \<Rightarrow> error + bool" where
  "js_ge rt v n =
     (case ToNumber rt v of
        Inl e \<Rightarrow> Inl e
      | Inr x \<Rightarrow> Inr (case IsLessThan x (Fin n) of None \<Rightarrow> False | Some b \<Rightarrow> \<not> b))"

text \<open>
  \<^verbatim>\<open>panels.filter(p => test(p.dirtLevel)).length\<close>: the callback runs on every element
  in order, and the first exception leaves the filter.
\<close>

fun count_where :: "(jsval \<Rightarrow> error + bool) \<Rightarrow> jsval list \<Rightarrow> error + nat" where
  "count_where t [] = Inr 0"
| "count_where t (p # ps) =
     (case get_prop p ''dirtLevel'' of
        Inl e \<Rightarrow> Inl e
      | Inr d \<Rightarrow>
          (case t d of
             Inl e \<Rightarrow> Inl e
           | Inr b \<Rightarrow>
               (case count_where t ps of
                  Inl e \<Rightarrow> Inl e
                | Inr n \<Rightarrow> Inr (if b then Suc n else n))))"

definition cleanCount :: "env \<Rightarrow> jsval list \<Rightarrow> error + nat" where
  "cleanCount rt panels = count_where (\<lambda>d. js_lt rt d 10) panels"

definition dirtyCount :: "env \<Rightarrow> jsval list \<Rightarrow> error + nat" where
  "dirtyCount rt panels = count_where (\<lambda>d. js_ge rt d 30) panels"

text \<open>
  An element is counted by a filter when reading its \<^verbatim>\<open>dirtLevel\<close> and comparing it
  both succeed and the comparison is true.
\<close>

definition counts_lt :: "env \<Rightarrow> rat \<Rightarrow> jsval \<Rightarrow> bool" where
  "counts_lt e n p =
     (case get_prop p ''dirtLevel'' of Inl _ \<Rightarrow> False | Inr d \<Rightarrow> js_lt e d n = Inr True)"

definition counts_ge :: "env \<Rightarrow> rat \<Rightarrow> jsval \<Rightarrow> bool" where
  "counts_ge e n p =
     (case get_prop p ''dirtLevel'' of Inl _ \<Rightarrow> False | Inr d \<Rightarrow> js_ge e d n = Inr True)"

section \<open>The statements the handlers send\<close>

text \<open>
  A query parameter that is \<^verbatim>\<open>undefined\<close> or \<^verbatim>\<open>null\<close> is sent as NULL; any other value
  is read by the store for the type of its column. \<open>None\<close>: the statement fails.
\<close>

definition nullable :: "(jsval \<Rightarrow> 'a option) \<Rightarrow> jsval \<Rightarrow> 'a option option" where
  "nullable rd v =
     (if v = JUndefined \<or> v = JNull then Some None else map_option Some (rd v))"

definition not_null :: "(jsval \<Rightarrow> 'a option) \<Rightarrow> jsval \<Rightarrow> 'a option" where
  "not_null rd v = (if v = JUndefined \<or> v = JNull then None else rd v)"

text \<open>
  \<^verbatim>\<open>INSERT INTO solar_panels (name, power, efficiency, status, temp, dirt_level,
  dust_accumulation) VALUES ($1, ..., $7) RETURNING *\<close>, with the seven properties of
  \<open>panel\<close> as parameters: the new row and the state with the row appended, or the error.
  A statement that fails writes no row; whether it has drawn a value from the sequence of
  \<^verbatim>\<open>id\<close> is not followed (the counter stays), and no property below reads an \<^verbatim>\<open>id\<close> after a
  failure.
\<close>

definition insert_solar_panel :: "env \<Rightarrow> int \<Rightarrow> jsval \<Rightarrow> db \<Rightarrow> error + db \<times> reading" where
  "insert_solar_panel e now panel s =
     (case (get_prop panel ''name'', get_prop panel ''power'', get_prop panel ''efficiency'',
            get_prop panel ''status'', get_prop panel ''temp'', get_prop panel ''dirtLevel'',
            get_prop panel ''dustAccumulation'') of
        (Inr v1, Inr v2, Inr v3, Inr v4, Inr v5, Inr v6, Inr v7) \<Rightarrow>
          (case (not_null (varchar_in e (Some 50)) v1, nullable (numeric_in e 5 2) v2,
                 nullable (integer_in e) v3, nullable (varchar_in e (Some 20)) v4,
                 nullable (integer_in e) v5, nullable (integer_in e) v6,
                 nullable (varchar_in e (Some 20)) v7) of
             (Some c1, Some c2, Some c3, Some c4, Some c5, Some c6, Some c7) \<Rightarrow>
               (let row = \<lparr>sp_id = solar_panels_id_seq s, sp_name = c1, sp_power = c2,
                             sp_efficiency = c3, sp_status = c4, sp_temp = c5,
                             sp_dirt_level = c6, sp_dust_accumulation = c7,
                             sp_timestamp = now\<rparr>
                in Inr (s\<lparr>solar_panels := solar_panels s @ [row],
                          solar_panels_id_seq := solar_panels_id_seq s + 1\<rparr>, row))
           | _ \<Rightarrow> Inl StoreError)
      | _ \<Rightarrow> Inl TypeError)"

text \<open>
  The \<^verbatim>\<open>for (const panel of panels)\<close> loop: one statement per panel, the \<open>k\<close>-th at the
  instant \<open>pg_now clk k\<close>; the first failure leaves the loop, and the rows written before
  it stay.
\<close>

fun insert_loop ::
  "env \<Rightarrow> clock \<Rightarrow> nat \<Rightarrow> jsval list \<Rightarrow> db \<Rightarrow> reading list \<Rightarrow> db \<times> (error + reading list)" where
  "insert_loop e clk k [] s insertedPanels = (s, Inr insertedPanels)"
| "insert_loop e clk k (panel # ps) s insertedPanels =
     (case insert_solar_panel e (pg_now clk k) panel s of
        Inl err \<Rightarrow> (s, Inl err)
      | Inr (s', row) \<Rightarrow> insert_loop e clk (Suc k) ps s' (insertedPanels @ [row]))"

text \<open>
  \<^verbatim>\<open>INSERT INTO daily_stats (date, total_power, avg_efficiency, clean_panels, dirty_panels)
  VALUES ($1, ..., $5) ON CONFLICT (date) DO UPDATE SET total_power = $2, avg_efficiency = $3,
  clean_panels = $4, dirty_panels = $5, timestamp = CURRENT_TIMESTAMP\<close>, on parameters the
  store has read. A row of that date is updated in place; without one, a new row is
  appended, \<^verbatim>\<open>total_energy\<close> NULL. The sequence of \<^verbatim>\<open>id\<close> advances in both cases.
\<close>

definition set_stats :: "int \<Rightarrow> rat option \<Rightarrow> rat option \<Rightarrow> int \<Rightarrow> int \<Rightarrow> daily \<Rightarrow> daily" where
  "set_stats now tp ae cc dc r =
     r\<lparr>ds_total_power := tp, ds_avg_efficiency := ae, ds_clean_panels := Some cc,
       ds_dirty_panels := Some dc, ds_timestamp := now\<rparr>"

definition upsert_daily_stats ::
  "int \<Rightarrow> int \<Rightarrow> rat option \<Rightarrow> rat option \<Rightarrow> int \<Rightarrow> int \<Rightarrow> db \<Rightarrow> db" where
  "upsert_daily_stats now d tp ae cc dc s =
     (if d \<in> set (map ds_date (daily_stats s))
      then s\<lparr>daily_stats :=
               map (\<lambda>r. if ds_date r = d then set_stats now tp ae cc dc r else r) (daily_stats s),
             daily_stats_id_seq := daily_stats_id_seq s + 1\<rparr>
      else s\<lparr>daily_stats :=
               daily_stats s @
                 [\<lparr>ds_id = daily_stats_id_seq s, ds_date = d, ds_total_power = tp,
                   ds_avg_efficiency = ae, ds_total_energy = None, ds_clean_panels = Some cc,
                   ds_dirty_panels = Some dc, ds_timestamp = now\<rparr>],
             daily_stats_id_seq := daily_stats_id_seq s + 1\<rparr>)"

text \<open>
  \<^verbatim>\<open>SELECT DISTINCT ON (name) * FROM solar_panels ORDER BY name, timestamp DESC LIMIT $1\<close>:
  the rows sorted by name, the newest first within a name; of each run of rows of one
  name the first is kept; then the limit. Names are compared as byte strings. Among rows
  of one name and one instant the store may put any first; the sort here is stable.
\<close>

fun distinct_on :: "('a \<Rightarrow> 'k) \<Rightarrow> 'a list \<Rightarrow> 'a list" where
  "distinct_on f [] = []"
| "distinct_on f [x] = [x]"
| "distinct_on f (x # y # xs) =
     (if f x = f y then distinct_on f (x # xs) else x # distinct_on f (y # xs))"

definition latestPerPanel :: "nat \<Rightarrow> reading list \<Rightarrow> reading list" where
  "latestPerPanel limit rows =
     take limit (distinct_on sp_name (sort_key (\<lambda>r. (sp_name r, - sp_timestamp r)) rows))"

text \<open>
  \<^verbatim>\<open>SELECT * FROM solar_panels WHERE name = $1 ORDER BY timestamp DESC LIMIT $2\<close>.
\<close>

definition historyFor :: "string \<Rightarrow> nat \<Rightarrow> reading list \<Rightarrow> reading list" where
  "historyFor panelName limit rows =
     take limit (sort_key (\<lambda>r. - sp_timestamp r) (filter (\<lambda>r. sp_name r = panelName) rows))"

text \<open>
  \<^verbatim>\<open>DELETE FROM solar_panels WHERE timestamp < c RETURNING *\<close> for the instant \<open>c\<close> the
  store computed: the state without the deleted rows, and \<^verbatim>\<open>rowCount\<close>. An instant
  before \<open>c\<close> by \<open>n\<close> days is \<open>c - n * us_per_day\<close>.
\<close>

definition us_per_day :: int where
  "us_per_day = 86400000000"

definition delete_before :: "int \<Rightarrow> db \<Rightarrow> db \<times> (error + nat)" where
  "delete_before c s =
     (s\<lparr>solar_panels := filter (\<lambda>r. \<not> sp_timestamp r < c) (solar_panels s)\<rparr>,
      Inr (length (filter (\<lambda>r. sp_timestamp r < c) (solar_panels s))))"

text \<open>
  The interval of the statement, \<^verbatim>\<open>INTERVAL 'lit'\<close>. A non-negative integer \<open>n\<close> reaches
  the handler as its decimal numeral \<open>show_nat n\<close>, and the literal is that numeral
  followed by \<^verbatim>\<open> days\<close>. The store reads it as \<open>n\<close> days (of 24 hours, the session being in
  UTC) and computes the instant \<open>n\<close> days before \<open>now\<close>; it rejects a number of days above
  \<open>2^31 - 1\<close> (the day field of an interval is 32 bits wide) and an instant before its
  first timestamp, midnight of Julian day 0, which is 2440588 days before the epoch (in
  the year 4714 BC). Every other literal is left to \<open>other_interval\<close>.
\<close>

fun show_nat :: "nat \<Rightarrow> string" where
  "show_nat n =
     (if n < 10 then [''0123456789'' ! n]
      else show_nat (n div 10) @ [''0123456789'' ! (n mod 10)])"

fun digits_value :: "nat \<Rightarrow> string \<Rightarrow> nat option" where
  "digits_value acc [] = Some acc"
| "digits_value acc (c # cs) =
     (if CHR ''0'' \<le> c \<and> c \<le> CHR ''9''
      then digits_value (10 * acc + (of_char c - 48)) cs
      else None)"

definition canonical_nat :: "string \<Rightarrow> nat option" where
  "canonical_nat str =
     (case str of
        [] \<Rightarrow> None
      | c # cs \<Rightarrow> if c = CHR ''0'' \<and> cs \<noteq> [] then None else digits_value 0 str)"

definition days_literal :: "string \<Rightarrow> nat option" where
  "days_literal lit =
     (if 5 \<le> length lit \<and> drop (length lit - 5) lit = '' days''
      then canonical_nat (take (length lit - 5) lit)
      else None)"

definition min_timestamp :: int where
  "min_timestamp = - 2440588 * us_per_day"

definition days_before :: "int \<Rightarrow> nat \<Rightarrow> int option" where
  "days_before now n =
     (if int n \<le> 2147483647 \<and> min_timestamp \<le> now - int n * us_per_day
      then Some (now - int n * us_per_day)
      else None)"

definition interval_cutoff :: "env \<Rightarrow> int \<Rightarrow> string \<Rightarrow> int option" where
  "interval_cutoff e now lit =
     (case days_literal lit of
        Some n \<Rightarrow> days_before now n
      | None \<Rightarrow> other_interval e now lit)"

text \<open>
  The text of the \<^verbatim>\<open>DELETE\<close> statement, \<^verbatim>\<open>days\<close> spliced in by the template literal.
\<close>

definition cleanup_sql :: "string \<Rightarrow> string" where
  "cleanup_sql days =
     ''DELETE FROM solar_panels WHERE timestamp < NOW() - INTERVAL '' @ [CHR 0x27] @ days @
     '' days'' @ [CHR 0x27] @ '' RETURNING *''"

text \<open>
  What the store does with that text. Without a quote in \<open>days\<close> the statement is the
  \<^verbatim>\<open>DELETE\<close> above, its literal \<open>days\<close> followed by \<^verbatim>\<open> days\<close>; with one, the text is
  another statement, left to \<open>other_sql\<close>.
\<close>

definition purgeOlderThan :: "env \<Rightarrow> int \<Rightarrow> string \<Rightarrow> db \<Rightarrow> db \<times> (error + nat)" where
  "purgeOlderThan e now days s =
     (if CHR 0x27 \<in> set days then other_sql e (cleanup_sql days) now s
      else (case interval_cutoff e now (days @ '' days'') of
              None \<Rightarrow> (s, Inl StoreError)
            | Some c \<Rightarrow> delete_before c s))"

section \<open>The handlers\<close>

text \<open>
  A response is its status and the fields of its JSON body that depend on the request:
  \<^item> \<open>SolarData count data timestamp\<close>, \<open>Saved n data timestamp\<close> (the message names
    \<open>n = panels.length\<close>), \<open>PanelHistory panelName count data\<close> and
    \<open>Deleted rowCount days\<close> are the 200 responses, \<^verbatim>\<open>success: true\<close>;
  \<^item> \<open>BadRequest\<close> is the 400 response, \<^verbatim>\<open>success: false\<close>;
  \<^item> \<open>ServerError err\<close> is the 500 response of a \<^verbatim>\<open>catch\<close> block, \<^verbatim>\<open>success: false\<close>.
\<close>

datatype response =
    SolarData nat "reading list" int
  | Saved nat "reading list" int
  | PanelHistory string nat "reading list"
  | Deleted nat string
  | BadRequest
  | ServerError error

fun status :: "response \<Rightarrow> nat" where
  "status BadRequest = 400"
| "status (ServerError _) = 500"
| "status _ = 200"

fun success :: "response \<Rightarrow> bool" where
  "success BadRequest = False"
| "success (ServerError _) = False"
| "success _ = True"

text \<open>
  The handlers carry the names the service descriptor gives their routes: \<^verbatim>\<open>get_data\<close>,
  \<^verbatim>\<open>save_data\<close>, \<^verbatim>\<open>get_panel\<close> and \<^verbatim>\<open>delete_old\<close>.

  \<^verbatim>\<open>GET /api/solar-data\<close>; \<open>q\<close> is \<^verbatim>\<open>req.query.limit\<close>. The store rejects a limit it cannot
  read as a \<open>BIGINT\<close>, and a negative one.
\<close>

definition get_data :: "env \<Rightarrow> clock \<Rightarrow> db \<Rightarrow> jsval \<Rightarrow> db \<times> response" where
  "get_data e clk s q =
     (let limit = (if truthy q then q else JNum (Fin 100)) in
      case bigint_in e limit of
        None \<Rightarrow> (s, ServerError StoreError)
      | Some n \<Rightarrow>
          if n < 0 then (s, ServerError StoreError)
          else (let rows = latestPerPanel (nat n) (solar_panels s)
                in (s, SolarData (length rows) rows (js_now clk 0))))"

text \<open>
  \<^verbatim>\<open>POST /api/solar-data\<close>; \<open>body\<close> is \<^verbatim>\<open>req.body\<close>. \<^verbatim>\<open>today\<close> is the UTC date of
  \<^verbatim>\<open>new Date()\<close>; the two counts are Numbers below \<open>2^32\<close>, which the store reads as
  \<open>INTEGER\<close> up to \<open>2^31 - 1\<close>.
\<close>

definition ms_per_day :: int where
  "ms_per_day = 86400000"

definition count_in :: "nat \<Rightarrow> int option" where
  "count_in n = (if int n \<le> 2147483647 then Some (int n) else None)"

definition save_data :: "env \<Rightarrow> clock \<Rightarrow> db \<Rightarrow> jsval \<Rightarrow> db \<times> response" where
  "save_data e clk s body =
     (case (get_prop body ''panels'', get_prop body ''totalPower'',
            get_prop body ''avgEfficiency'') of
        (Inr panels, Inr totalPower, Inr avgEfficiency) \<Rightarrow>
          if \<not> truthy panels \<or> \<not> isArray panels then (s, BadRequest)
          else
            (case panels of
               JArr ps \<Rightarrow>
                 (case insert_loop e clk 0 ps s [] of
                    (s1, Inl err) \<Rightarrow> (s1, ServerError err)
                  | (s1, Inr insertedPanels) \<Rightarrow>
                      (let today = js_now clk 0 div ms_per_day in
                       case cleanCount e ps of
                         Inl err \<Rightarrow> (s1, ServerError err)
                       | Inr cc \<Rightarrow>
                           (case dirtyCount e ps of
                              Inl err \<Rightarrow> (s1, ServerError err)
                            | Inr dc \<Rightarrow>
                                (case (nullable (numeric_in e 10 2) totalPower,
                                       nullable (numeric_in e 5 2) avgEfficiency,
                                       count_in cc, count_in dc) of
                                   (Some tp, Some ae, Some c, Some d) \<Rightarrow>
                                     (upsert_daily_stats (pg_now clk (length ps)) today tp ae c d s1,
                                      Saved (length ps) insertedPanels (js_now clk 1))
                                 | _ \<Rightarrow> (s1, ServerError StoreError)))))
             | _ \<Rightarrow> (s, BadRequest))
      | _ \<Rightarrow> (s, ServerError TypeError))"

text \<open>
  \<^verbatim>\<open>GET /api/solar-data/:panelName\<close>; \<open>q\<close> is \<^verbatim>\<open>req.query.limit\<close>.
\<close>

definition get_panel :: "env \<Rightarrow> db \<Rightarrow> string \<Rightarrow> jsval \<Rightarrow> db \<times> response" where
  "get_panel e s panelName q =
     (let limit = (if truthy q then q else JNum (Fin 10)) in
      case (varchar_in e None (JStr panelName), bigint_in e limit) of
        (Some nm, Some n) \<Rightarrow>
          if n < 0 then (s, ServerError StoreError)
          else (let rows = historyFor nm (nat n) (solar_panels s)
                in (s, PanelHistory panelName (length rows) rows))
      | _ \<Rightarrow> (s, ServerError StoreError))"

text \<open>
  \<^verbatim>\<open>DELETE /api/solar-data/cleanup/:days\<close>; \<open>days\<close> is \<^verbatim>\<open>req.params.days\<close>, a string.
\<close>

definition delete_old :: "env \<Rightarrow> clock \<Rightarrow> db \<Rightarrow> string \<Rightarrow> db \<times> response" where
  "delete_old e clk s days =
     (case purgeOlderThan e (pg_now clk 0) days s of
        (s', Inl err) \<Rightarrow> (s', ServerError err)
      | (s', Inr rowCount) \<Rightarrow> (s', Deleted rowCount days))"

text \<open>A sequence of ingest requests, each with its clocks, from a state.\<close>

fun ingest_all :: "env \<Rightarrow> db \<Rightarrow> (clock \<times> jsval) list \<Rightarrow> db" where
  "ingest_all e s [] = s"
| "ingest_all e s ((clk, body) # reqs) = ingest_all e (fst (save_data e clk s body)) reqs"

section \<open>An environment for the worked examples\<close>

text \<open>
  \<open>example_env\<close> reads decimal numerals, integral Numbers and short strings as Node and
  PostgreSQL do, and gives NaN or rejects on every other value. The examples below use
  no other value.
\<close>

definition decimal :: "string \<Rightarrow> int option" where
  "decimal str =
     (case str of
        [] \<Rightarrow> None
      | c # cs \<Rightarrow>
          if c = CHR ''-'' \<and> cs \<noteq> [] then map_option (\<lambda>n. - int n) (digits_value 0 cs)
          else map_option int (digits_value 0 str))"

definition integral_in :: "int \<Rightarrow> jsval \<Rightarrow> int option" where
  "integral_in bound v =
     (case v of
        JNum (Fin q) \<Rightarrow>
          if q = of_int \<lfloor>q\<rfloor> \<and> - bound \<le> \<lfloor>q\<rfloor> \<and> \<lfloor>q\<rfloor> < bound then Some \<lfloor>q\<rfloor> else None
      | JStr str \<Rightarrow>
          (case decimal str of
             None \<Rightarrow> None
           | Some n \<Rightarrow> if - bound \<le> n \<and> n < bound then Some n else None)
      | _ \<Rightarrow> None)"

definition example_env :: env where
  "example_env =
     \<lparr>StringToNumber =
        (\<lambda>str. case decimal str of None \<Rightarrow> NaN | Some n \<Rightarrow> Fin (of_int n)),
      ObjectToPrimitive = (\<lambda>v. Inr ''[object Object]''),
      varchar_in =
        (\<lambda>lim v. case v of
                    JStr str \<Rightarrow>
                      if (case lim of None \<Rightarrow> True | Some n \<Rightarrow> length str \<le> n) then Some str
                      else None
                  | _ \<Rightarrow> None),
      numeric_in =
        (\<lambda>p sc v. map_option of_int (integral_in (10 ^ (p - sc)) v)),
      integer_in = integral_in 2147483648,
      bigint_in = integral_in 9223372036854775808,
      other_interval =
        (\<lambda>now lit.
           if 5 \<le> length lit \<and> drop (length lit - 5) lit = '' days''
           then (case decimal (take (length lit - 5) lit) of
                   None \<Rightarrow> None
                 | Some n \<Rightarrow> if \<bar>n\<bar> \<le> 100000 then Some (now - n * us_per_day) else None)
           else None),
      other_sql = (\<lambda>q now s. (s, Inl StoreError))\<rparr>"

section \<open>Requests and states of the worked examples\<close>

text \<open>
  The batch of two panels, one clean and one dirty, ingested into the empty store
  (\<open>sample_state\<close>); a body whose \<^verbatim>\<open>panels\<close> is no array; a second batch for panel P1,
  ingested a minute later (\<open>sample_state2\<close>); a clock seven days and thirty seconds
  after the first ingest (\<open>week_clock\<close>); a batch that names P1 twice, ingested while
  the store's clock reads one instant for both rows (\<open>twin_state\<close>); and panels without a
  \<^verbatim>\<open>dirtLevel\<close> and with \<^verbatim>\<open>dirtLevel: null\<close>.
\<close>

definition sample_clock :: clock where
  "sample_clock =
     \<lparr>pg_now = (\<lambda>k. 1762000000000000 + int k), js_now = (\<lambda>k. 1762000000000 + int k)\<rparr>"

definition sample_P1 :: jsval where
  "sample_P1 =
     JObj [(''name'', JStr ''P1''), (''power'', JNum (Fin 10)), (''efficiency'', JNum (Fin 90)),
           (''status'', JStr ''online''), (''temp'', JNum (Fin 40)),
           (''dirtLevel'', JNum (Fin 5)), (''dustAccumulation'', JStr ''low'')]"

definition sample_P2 :: jsval where
  "sample_P2 =
     JObj [(''name'', JStr ''P2''), (''power'', JNum (Fin 8)), (''efficiency'', JNum (Fin 70)),
           (''status'', JStr ''online''), (''temp'', JNum (Fin 45)),
           (''dirtLevel'', JNum (Fin 35)), (''dustAccumulation'', JStr ''high'')]"

definition sample_batch :: jsval where
  "sample_batch =
     JObj [(''panels'', JArr [sample_P1, sample_P2]), (''totalPower'', JNum (Fin 18)),
           (''avgEfficiency'', JNum (Fin 80))]"

definition sample_state :: db where
  "sample_state = fst (save_data example_env sample_clock initDatabase sample_batch)"

definition malformed_batch :: jsval where
  "malformed_batch = JObj [(''panels'', JStr ''not-an-array'')]"

definition sample_batch2 :: jsval where
  "sample_batch2 =
     JObj [(''panels'', JArr [sample_P1]), (''totalPower'', JNum (Fin 10)),
           (''avgEfficiency'', JNum (Fin 90))]"

definition later_clock :: clock where
  "later_clock =
     \<lparr>pg_now = (\<lambda>k. 1762000060000000 + int k), js_now = (\<lambda>k. 1762000060000 + int k)\<rparr>"

definition week_clock :: clock where
  "week_clock =
     \<lparr>pg_now = (\<lambda>k. 1762604830000000 + int k), js_now = (\<lambda>k. 1762604830000 + int k)\<rparr>"

definition sample_state2 :: db where
  "sample_state2 = fst (save_data example_env later_clock sample_state sample_batch2)"

definition frozen_clock :: clock where
  "frozen_clock = \<lparr>pg_now = (\<lambda>k. 1762000000000000), js_now = (\<lambda>k. 1762000000000)\<rparr>"

definition twin_batch :: jsval where
  "twin_batch =
     JObj [(''panels'', JArr [sample_P1, sample_P1]), (''totalPower'', JNum (Fin 20)),
           (''avgEfficiency'', JNum (Fin 90))]"

definition twin_state :: db where
  "twin_state = fst (save_data example_env frozen_clock initDatabase twin_batch)"

definition null_dirt_panel :: jsval where
  "null_dirt_panel = JObj [(''name'', JStr ''P1''), (''dirtLevel'', JNull)]"

definition no_dirt_panel :: jsval where
  "no_dirt_panel = JObj [(''name'', JStr ''P3'')]"

definition null_dirt_batch :: jsval where
  "null_dirt_batch =
     JObj [(''panels'', JArr [null_dirt_panel]), (''totalPower'', JNum (Fin 10)),
           (''avgEfficiency'', JNum (Fin 90))]"

section \<open>Properties\<close>

subsection \<open>Evaluation of the examples\<close>

lemmas example_simps =
  save_data_def sample_batch_def sample_P1_def sample_P2_def sample_clock_def
  initDatabase_def example_env_def insert_solar_panel_def nullable_def not_null_def
  integral_in_def cleanCount_def dirtyCount_def js_lt_def js_ge_def count_in_def
  upsert_daily_stats_def ms_per_day_def decimal_def sample_state_def Let_def

subsection \<open>The daily row: upsert and uniqueness\<close>

lemma upsert_dates:
  "map ds_date (map (\<lambda>r. if ds_date r = d then set_stats now tp ae cc dc r else r) xs) =
   map ds_date xs"
  by (induction xs) (auto simp: set_stats_def)

lemma unique_dates_upsert:
  "unique_dates s \<Longrightarrow> unique_dates (upsert_daily_stats now d tp ae cc dc s)"
  unfolding unique_dates_def upsert_daily_stats_def
  by (simp add: upsert_dates del: map_map)

lemma filter_key_single:
  "distinct (map f xs) \<Longrightarrow> x \<in> set xs \<Longrightarrow> filter (\<lambda>y. f y = f x) xs = [x]"
proof (induction xs)
  case Nil
  then show ?case by simp
next
  case (Cons a xs)
  show ?case
  proof (cases "a = x")
    case True
    have "filter (\<lambda>y. f y = f x) xs = []"
      using Cons.prems(1) True by (auto simp: filter_empty_conv image_iff)
    with True show ?thesis by simp
  next
    case False
    with Cons.prems have "x \<in> set xs" and "f a \<noteq> f x" by auto
    with Cons show ?thesis by simp
  qed
qed

lemma upsert_existing:
  assumes "unique_dates s" and "r \<in> set (daily_stats s)"
  shows "filter (\<lambda>x. ds_date x = ds_date r)
           (daily_stats (upsert_daily_stats now (ds_date r) tp ae cc dc s)) =
         [set_stats now tp ae cc dc r]"
proof -
  let ?upd = "\<lambda>x. if ds_date x = ds_date r then set_stats now tp ae cc dc x else x"
  have in_dates: "ds_date r \<in> set (map ds_date (daily_stats s))"
    using assms(2) by auto
  have d: "distinct (map ds_date (map ?upd (daily_stats s)))"
    using assms(1) by (simp only: upsert_dates unique_dates_def)
  have m: "?upd r \<in> set (map ?upd (daily_stats s))"
    using assms(2) by (simp only: set_map) (rule imageI)
  have "filter (\<lambda>y. ds_date y = ds_date (?upd r)) (map ?upd (daily_stats s)) = [?upd r]"
    using d m by (rule filter_key_single)
  moreover have "ds_date (?upd r) = ds_date r"
    by (simp add: set_stats_def)
  ultimately have "filter (\<lambda>y. ds_date y = ds_date r) (map ?upd (daily_stats s)) = [?upd r]"
    by simp
  with in_dates show ?thesis
    by (simp add: upsert_daily_stats_def)
qed

lemma upsert_fresh:
  assumes "d \<notin> set (map ds_date (daily_stats s))"
  shows "filter (\<lambda>x. ds_date x = d) (daily_stats (upsert_daily_stats now d tp ae cc dc s)) =
         [\<lparr>ds_id = daily_stats_id_seq s, ds_date = d, ds_total_power = tp,
           ds_avg_efficiency = ae, ds_total_energy = None, ds_clean_panels = Some cc,
           ds_dirty_panels = Some dc, ds_timestamp = now\<rparr>]"
proof -
  have "filter (\<lambda>x. ds_date x = d) (daily_stats s) = []"
    using assms by (auto simp: filter_empty_conv)
  with assms show ?thesis
    by (simp add: upsert_daily_stats_def)
qed

lemma upsert_row:
  assumes "unique_dates s"
  shows "\<exists>i en. filter (\<lambda>x. ds_date x = d) (daily_stats (upsert_daily_stats now d tp ae cc dc s)) =
         [\<lparr>ds_id = i, ds_date = d, ds_total_power = tp,
           ds_avg_efficiency = ae, ds_total_energy = en, ds_clean_panels = Some cc,
           ds_dirty_panels = Some dc, ds_timestamp = now\<rparr>]"
proof (cases "d \<in> set (map ds_date (daily_stats s))")
  case True
  then obtain r where r: "r \<in> set (daily_stats s)" "ds_date r = d" by auto
  have "set_stats now tp ae cc dc r =
        \<lparr>ds_id = ds_id r, ds_date = d, ds_total_power = tp,
           ds_avg_efficiency = ae, ds_total_energy = ds_total_energy r, ds_clean_panels = Some cc,
           ds_dirty_panels = Some dc, ds_timestamp = now\<rparr>"
    using r(2) by (cases r) (simp add: set_stats_def)
  with upsert_existing[OF assms r(1), of now tp ae cc dc] r(2) show ?thesis by auto
next
  case False
  from upsert_fresh[OF this] show ?thesis by blast
qed

text \<open>
  Claim C1. On a table with one row per date, two upserts for the same date \<open>d\<close> leave
  exactly one row for \<open>d\<close>: its \<^verbatim>\<open>total_power\<close>, \<^verbatim>\<open>avg_efficiency\<close>, \<^verbatim>\<open>clean_panels\<close>,
  \<^verbatim>\<open>dirty_panels\<close> and \<^verbatim>\<open>timestamp\<close> are those of the second call, whatever the first
  call wrote, and its \<^verbatim>\<open>date\<close> is \<open>d\<close>.
\<close>

theorem upsert_twice:
  assumes "unique_dates s"
  shows "\<exists>i en.
     filter (\<lambda>x. ds_date x = d)
       (daily_stats (upsert_daily_stats now2 d tp2 ae2 cc2 dc2
                      (upsert_daily_stats now1 d tp1 ae1 cc1 dc1 s))) =
     [\<lparr>ds_id = i, ds_date = d, ds_total_power = tp2, ds_avg_efficiency = ae2,
       ds_total_energy = en, ds_clean_panels = Some cc2, ds_dirty_panels = Some dc2,
       ds_timestamp = now2\<rparr>]"
  using unique_dates_upsert[OF assms] by (rule upsert_row)

text \<open>
  The theorem at the empty store: after \<open>(18, 80, 1, 1)\<close> and then \<open>(20, 75, 3, 4)\<close> for
  day 20393, the only row carries the second call's fields.
\<close>

theorem upsert_twice_witness:
  "unique_dates initDatabase \<and>
   filter (\<lambda>x. ds_date x = 20393)
       (daily_stats (upsert_daily_stats 2000 20393 (Some 20) (Some 75) 3 4
                      (upsert_daily_stats 1000 20393 (Some 18) (Some 80) 1 1 initDatabase))) =
     [\<lparr>ds_id = 1, ds_date = 20393, ds_total_power = Some 20, ds_avg_efficiency = Some 75,
       ds_total_energy = None, ds_clean_panels = Some 3, ds_dirty_panels = Some 4,
       ds_timestamp = 2000\<rparr>]"
proof -
  have h: "unique_dates initDatabase"
    by (simp add: unique_dates_def initDatabase_def)
  show ?thesis
    using h upsert_twice [OF h, of 20393 2000 "Some 20" "Some 75" 3 4 1000 "Some 18" "Some 80" 1 1]
    by (simp add: upsert_daily_stats_def initDatabase_def set_stats_def)
qed

lemma insert_loop_daily:
  "insert_loop e clk k ps s acc = (s1, r) \<Longrightarrow> daily_stats s1 = daily_stats s"
  by (induction ps arbitrary: k s acc)
     (auto simp: insert_solar_panel_def Let_def split: sum.splits prod.splits option.splits)

lemma unique_dates_insert_loop:
  "insert_loop e clk k ps s acc = (s1, r) \<Longrightarrow> unique_dates s \<Longrightarrow> unique_dates s1"
  by (simp add: unique_dates_def insert_loop_daily)

lemma unique_dates_save_data:
  assumes "unique_dates s"
  shows "unique_dates (fst (save_data e clk s body))"
  unfolding save_data_def Let_def using assms
  by (auto split: sum.splits prod.splits jsval.splits option.splits
           dest: unique_dates_insert_loop intro: unique_dates_upsert)

lemma unique_dates_ingest_all:
  "unique_dates s \<Longrightarrow> unique_dates (ingest_all e s reqs)"
  by (induction reqs arbitrary: s) (auto simp: unique_dates_save_data)

text \<open>
  Claim C2. From a state with at most one daily row per date, every sequence of ingest
  requests keeps at most one daily row per date after each of its requests.
\<close>

theorem one_row_per_date:
  assumes "unique_dates s"
  shows "\<forall>k. unique_dates (ingest_all e s (take k reqs))"
  using assms by (simp add: unique_dates_ingest_all)

text \<open>
  The theorem at two ingests of the same day into the empty store: one row for that day.
\<close>

theorem one_row_per_date_witness:
  "unique_dates initDatabase \<and>
   (\<forall>k. unique_dates (ingest_all example_env initDatabase
          (take k [(sample_clock, sample_batch), (sample_clock, sample_batch2)]))) \<and>
   map ds_date (daily_stats (ingest_all example_env initDatabase
          [(sample_clock, sample_batch), (sample_clock, sample_batch2)])) = [20393]"
proof -
  have h: "unique_dates initDatabase"
    by (simp add: unique_dates_def initDatabase_def)
  have "map ds_date (daily_stats (ingest_all example_env initDatabase
          [(sample_clock, sample_batch), (sample_clock, sample_batch2)])) = [20393]"
    by (simp add: example_simps sample_batch2_def set_stats_def)
  then show ?thesis
    using h one_row_per_date [OF h] by simp
qed

subsection \<open>Ingest: counts and validation\<close>

lemma count_where_length:
  "count_where t ps = Inr n \<Longrightarrow>
   n = length (filter (\<lambda>p. case get_prop p ''dirtLevel'' of Inl _ \<Rightarrow> False | Inr d \<Rightarrow> t d = Inr True) ps)"
  by (induction ps arbitrary: n) (auto split: sum.splits if_splits)

lemma cleanCount_length: "cleanCount e ps = Inr n \<Longrightarrow> n = length (filter (counts_lt e 10) ps)"
  unfolding cleanCount_def counts_lt_def by (rule count_where_length)

lemma dirtyCount_length: "dirtyCount e ps = Inr n \<Longrightarrow> n = length (filter (counts_ge e 30) ps)"
  unfolding dirtyCount_def counts_ge_def by (rule count_where_length)

lemma IsLessThan_mono:
  "IsLessThan x (Fin a) = Some True \<Longrightarrow> a \<le> b \<Longrightarrow> IsLessThan x (Fin b) = Some True"
  by (cases x) auto

lemma lt_excludes_ge: "a \<le> b \<Longrightarrow> counts_lt e a p \<Longrightarrow> \<not> counts_ge e b p"
  by (cases "get_prop p ''dirtLevel''")
     (auto simp: counts_lt_def counts_ge_def js_lt_def js_ge_def
           split: sum.splits option.splits dest: IsLessThan_mono)

lemma disjoint_filters_length:
  "(\<And>x. P x \<Longrightarrow> \<not> Q x) \<Longrightarrow> length (filter P xs) + length (filter Q xs) \<le> length xs"
  by (induction xs) auto

lemma upsert_has_row:
  "\<exists>r \<in> set (daily_stats (upsert_daily_stats now d tp ae cc dc s)).
     ds_date r = d \<and> ds_clean_panels r = Some cc \<and> ds_dirty_panels r = Some dc"
proof (cases "d \<in> set (map ds_date (daily_stats s))")
  case True
  then obtain x where x: "x \<in> set (daily_stats s)" "ds_date x = d" by auto
  let ?upd = "\<lambda>r. if ds_date r = d then set_stats now tp ae cc dc r else r"
  have m: "?upd x \<in> set (map ?upd (daily_stats s))"
    using x(1) by (simp only: set_map) (rule imageI)
  have p: "ds_date (?upd x) = d \<and> ds_clean_panels (?upd x) = Some cc \<and>
           ds_dirty_panels (?upd x) = Some dc"
    using x(2) by (simp add: set_stats_def)
  have "daily_stats (upsert_daily_stats now d tp ae cc dc s) = map ?upd (daily_stats s)"
    using True by (simp add: upsert_daily_stats_def)
  with m p show ?thesis
    by (intro bexI[of _ "?upd x"]) simp_all
next
  case False
  then show ?thesis by (simp add: upsert_daily_stats_def)
qed

lemma save_data_saved:
  assumes "save_data e clk s body = (s', Saved n ins t)"
  shows "\<exists>ps s1 cc dc tp ae.
     get_prop body ''panels'' = Inr (JArr ps) \<and>
     insert_loop e clk 0 ps s [] = (s1, Inr ins) \<and>
     cleanCount e ps = Inr cc \<and> dirtyCount e ps = Inr dc \<and> n = length ps \<and>
     s' = upsert_daily_stats (pg_now clk (length ps)) (js_now clk 0 div ms_per_day) tp ae
            (int cc) (int dc) s1"
  using assms unfolding save_data_def Let_def count_in_def
  by (auto split: sum.splits prod.splits jsval.splits option.splits if_splits)

text \<open>
  Claim C3. When an ingest succeeds, the row of today's date carries as \<^verbatim>\<open>clean_panels\<close>
  the number of elements of the submitted array with \<^verbatim>\<open>dirtLevel < 10\<close> and as
  \<^verbatim>\<open>dirty_panels\<close> the number with \<^verbatim>\<open>dirtLevel >= 30\<close>, both counted on the request body
  and not on the inserted rows; the two counts together are at most the length of the
  array.
\<close>

theorem ingest_counts_from_batch:
  assumes "save_data e clk s body = (s', Saved n insertedPanels t)"
  shows "\<exists>ps. get_prop body ''panels'' = Inr (JArr ps) \<and>
     cleanCount e ps = Inr (length (filter (counts_lt e 10) ps)) \<and>
     dirtyCount e ps = Inr (length (filter (counts_ge e 30) ps)) \<and>
     length (filter (counts_lt e 10) ps) + length (filter (counts_ge e 30) ps) \<le> length ps \<and>
     (\<exists>r\<in>set (daily_stats s'). ds_date r = js_now clk 0 div ms_per_day \<and>
        ds_clean_panels r = Some (int (length (filter (counts_lt e 10) ps))) \<and>
        ds_dirty_panels r = Some (int (length (filter (counts_ge e 30) ps))))"
proof -
  from save_data_saved[OF assms] obtain ps s1 cc dc tp ae where
    ps: "get_prop body ''panels'' = Inr (JArr ps)" and
    cc: "cleanCount e ps = Inr cc" and dc: "dirtyCount e ps = Inr dc" and
    s': "s' = upsert_daily_stats (pg_now clk (length ps)) (js_now clk 0 div ms_per_day) tp ae
            (int cc) (int dc) s1"
    by blast
  have cc_eq: "cc = length (filter (counts_lt e 10) ps)"
    using cc by (rule cleanCount_length)
  have dc_eq: "dc = length (filter (counts_ge e 30) ps)"
    using dc by (rule dirtyCount_length)
  have le: "length (filter (counts_lt e 10) ps) + length (filter (counts_ge e 30) ps) \<le> length ps"
    by (rule disjoint_filters_length) (simp add: lt_excludes_ge[of 10 30])
  have row: "\<exists>r\<in>set (daily_stats s'). ds_date r = js_now clk 0 div ms_per_day \<and>
        ds_clean_panels r = Some (int cc) \<and> ds_dirty_panels r = Some (int dc)"
    unfolding s' by (rule upsert_has_row)
  show ?thesis
    using ps cc dc le row unfolding cc_eq dc_eq by blast
qed

lemma sample_save:
  "save_data example_env sample_clock initDatabase sample_batch =
   (sample_state, Saved 2 (solar_panels sample_state) 1762000000001)"
  by (simp add: example_simps)

text \<open>
  The theorem at the batch of two panels, ingested into the empty store: one panel is
  clean, one is dirty.
\<close>

theorem ingest_counts_from_batch_witness:
  "save_data example_env sample_clock initDatabase sample_batch =
     (sample_state, Saved 2 (solar_panels sample_state) 1762000000001) \<and>
   (\<exists>ps. get_prop sample_batch ''panels'' = Inr (JArr ps) \<and>
     cleanCount example_env ps = Inr (length (filter (counts_lt example_env 10) ps)) \<and>
     dirtyCount example_env ps = Inr (length (filter (counts_ge example_env 30) ps)) \<and>
     length (filter (counts_lt example_env 10) ps) +
       length (filter (counts_ge example_env 30) ps) \<le> length ps \<and>
     (\<exists>r\<in>set (daily_stats sample_state).
        ds_date r = js_now sample_clock 0 div ms_per_day \<and>
        ds_clean_panels r = Some (int (length (filter (counts_lt example_env 10) ps))) \<and>
        ds_dirty_panels r = Some (int (length (filter (counts_ge example_env 30) ps))))) \<and>
   map ds_clean_panels (daily_stats sample_state) = [Some 1] \<and>
   map ds_dirty_panels (daily_stats sample_state) = [Some 1]"
proof -
  have "map ds_clean_panels (daily_stats sample_state) = [Some 1]"
    and "map ds_dirty_panels (daily_stats sample_state) = [Some 1]"
    by (simp_all add: example_simps)
  then show ?thesis
    using sample_save ingest_counts_from_batch [OF sample_save] by simp
qed

text \<open>
  Claim C4. A body whose \<^verbatim>\<open>panels\<close> is missing (\<^verbatim>\<open>undefined\<close>) or is no array is answered
  with the 400 response, \<^verbatim>\<open>success: false\<close>, and the state is the one before the request:
  no reading is written and no daily row is created or changed.
\<close>

theorem malformed_panels_rejected:
  assumes "get_prop body ''panels'' = Inr panels" and "\<not> isArray panels"
  shows "save_data e clk s body = (s, BadRequest) \<and> status BadRequest = 400 \<and>
         \<not> success BadRequest"
proof -
  from assms(1) have "get_prop body k \<noteq> Inl err" for k err
    by (cases body) auto
  then obtain tp ae where "get_prop body ''totalPower'' = Inr tp"
    "get_prop body ''avgEfficiency'' = Inr ae"
    by (metis sum.exhaust)
  with assms show ?thesis
    by (simp add: save_data_def)
qed

text \<open>
  The theorem at the body \<^verbatim>\<open>{panels: "not-an-array"}\<close>, on a store that holds rows.
\<close>

theorem malformed_panels_rejected_witness:
  "get_prop malformed_batch ''panels'' = Inr (JStr ''not-an-array'') \<and>
   \<not> isArray (JStr ''not-an-array'') \<and>
   save_data example_env sample_clock sample_state malformed_batch =
     (sample_state, BadRequest) \<and> status BadRequest = 400 \<and> \<not> success BadRequest"
proof -
  have h: "get_prop malformed_batch ''panels'' = Inr (JStr ''not-an-array'')"
    by (simp add: malformed_batch_def)
  show ?thesis
    using h malformed_panels_rejected [OF h, of example_env sample_clock sample_state] by simp
qed

subsection \<open>Queries\<close>

lemma set_distinct_on: "set (distinct_on f xs) \<subseteq> set xs"
  by (induction f xs rule: distinct_on.induct) auto

lemma sorted_distinct_on:
  fixes f :: "'a \<Rightarrow> 'k::linorder"
  shows "sorted (map f xs) \<Longrightarrow>
         sorted (map f (distinct_on f xs)) \<and> distinct (map f (distinct_on f xs))"
proof (induction f xs rule: distinct_on.induct)
  case (1 f)
  then show ?case by simp
next
  case (2 f x)
  then show ?case by simp
next
  case (3 f x y xs)
  show ?case
  proof (cases "f x = f y")
    case True
    from "3.prems" have "sorted (map f (x # xs))" by simp
    with "3.IH"(1)[OF True] True show ?thesis by simp
  next
    case False
    from "3.prems" have tl: "sorted (map f (y # xs))" by simp
    have above: "f x < f z" if "z \<in> set (distinct_on f (y # xs))" for z
    proof -
      from that set_distinct_on[of f "y # xs"] have "z \<in> set (y # xs)" by blast
      with "3.prems" have "f y \<le> f z" by auto
      moreover from "3.prems" False have "f x < f y" by (simp add: less_le)
      ultimately show ?thesis by simp
    qed
    have notin: "f x \<notin> set (map f (distinct_on f (y # xs)))"
    proof
      assume "f x \<in> set (map f (distinct_on f (y # xs)))"
      then obtain z where "z \<in> set (distinct_on f (y # xs))" "f z = f x" by auto
      with above[of z] show False by simp
    qed
    have le: "\<forall>v\<in>set (map f (distinct_on f (y # xs))). f x \<le> v"
      using above by (auto simp: less_imp_le)
    from "3.IH"(2)[OF False tl] notin le False show ?thesis
      by simp
  qed
qed

lemma first_of_group:
  fixes f :: "'a \<Rightarrow> 'k::linorder" and k :: "'a \<Rightarrow> 'o::linorder"
  shows "(\<And>a b. k a \<le> k b \<Longrightarrow> f a \<le> f b) \<Longrightarrow> sorted (map k xs) \<Longrightarrow>
         r \<in> set (distinct_on f xs) \<Longrightarrow> x \<in> set xs \<Longrightarrow> f x = f r \<Longrightarrow> k r \<le> k x"
proof (induction f xs arbitrary: r x rule: distinct_on.induct)
  case (1 f)
  then show ?case by simp
next
  case (2 f a)
  then show ?case by simp
next
  case (3 f a b xs)
  note mono = "3.prems"(1)
  from "3.prems"(2) have ab: "k a \<le> k b" and a_le: "\<forall>z\<in>set xs. k a \<le> k z"
    and b_le: "\<forall>z\<in>set xs. k b \<le> k z"
    and s1: "sorted (map k (a # xs))" and s2: "sorted (map k (b # xs))"
    by auto
  show ?case
  proof (cases "f a = f b")
    case True
    with "3.prems"(3) have r: "r \<in> set (distinct_on f (a # xs))" by simp
    show ?thesis
    proof (cases "x = b")
      case xb: True
      have "k r \<le> k a"
        using "3.IH"(1)[OF True mono s1 r, of a] True xb "3.prems"(5) by simp
      with ab xb show ?thesis by simp
    next
      case False
      with "3.prems"(4) have "x \<in> set (a # xs)" by auto
      from "3.IH"(1)[OF True mono s1 r this "3.prems"(5)] show ?thesis .
    qed
  next
    case False
    with "3.prems"(3) have r: "r = a \<or> r \<in> set (distinct_on f (b # xs))" by simp
    then show ?thesis
    proof
      assume "r = a"
      with "3.prems"(4) ab a_le show ?thesis by auto
    next
      assume rin: "r \<in> set (distinct_on f (b # xs))"
      with set_distinct_on[of f "b # xs"] have "r \<in> set (b # xs)" by blast
      with b_le have "k b \<le> k r" by auto
      then have fb: "f b \<le> f r" by (rule mono)
      from ab have "f a \<le> f b" by (rule mono)
      with False have "f a < f b" by (simp add: less_le)
      with fb have ne: "f a \<noteq> f r" by auto
      with "3.prems"(4,5) have "x \<in> set (b # xs)" by auto
      from "3.IH"(2)[OF False mono s2 rin this "3.prems"(5)] show ?thesis .
    qed
  qed
qed

text \<open>
  Claim C5. For every table and every limit, the latest-per-panel query returns at most
  \<open>limit\<close> rows, no two of one name, in ascending order of name; every returned row is a
  row of the table, and no row of the table with its name has a greater \<^verbatim>\<open>timestamp\<close>.
\<close>

theorem latestPerPanel_spec:
  "length (latestPerPanel limit rows) \<le> limit \<and>
   distinct (map sp_name (latestPerPanel limit rows)) \<and>
   sorted (map sp_name (latestPerPanel limit rows)) \<and>
   (\<forall>r\<in>set (latestPerPanel limit rows).
      r \<in> set rows \<and> (\<forall>x\<in>set rows. sp_name x = sp_name r \<longrightarrow> sp_timestamp x \<le> sp_timestamp r))"
proof -
  let ?k = "\<lambda>r. (sp_name r, - sp_timestamp r)"
  let ?ys = "sort_key ?k rows"
  let ?ds = "distinct_on sp_name ?ys"
  have sk: "sorted (map ?k ?ys)" by (rule sorted_sort_key)
  have mono: "sp_name a \<le> sp_name b" if "?k a \<le> ?k b" for a b
    using that by (auto simp: less_le)
  have sn: "sorted (map sp_name ?ys)"
    using sk by (auto simp: sorted_map intro: sorted_wrt_mono_rel[rotated] mono)
  from sorted_distinct_on[OF sn] have sd: "sorted (map sp_name ?ds)" and dd: "distinct (map sp_name ?ds)"
    by auto
  have 1: "length (latestPerPanel limit rows) \<le> limit"
    by (simp add: latestPerPanel_def)
  have 2: "distinct (map sp_name (latestPerPanel limit rows))"
    using dd by (simp add: latestPerPanel_def take_map[symmetric] distinct_take)
  have 3: "sorted (map sp_name (latestPerPanel limit rows))"
    using sd by (simp add: latestPerPanel_def take_map[symmetric] sorted_wrt_take)
  have 4: "r \<in> set rows \<and> (\<forall>x\<in>set rows. sp_name x = sp_name r \<longrightarrow> sp_timestamp x \<le> sp_timestamp r)"
    if "r \<in> set (latestPerPanel limit rows)" for r
  proof -
    from that have rd: "r \<in> set ?ds"
      by (auto simp: latestPerPanel_def dest: in_set_takeD)
    with set_distinct_on[of sp_name ?ys] have "r \<in> set rows" by auto
    moreover have "sp_timestamp x \<le> sp_timestamp r" if "x \<in> set rows" "sp_name x = sp_name r" for x
    proof -
      from that(1) have "x \<in> set ?ys" by simp
      from first_of_group[of ?k sp_name, OF mono sk rd this that(2)] that(2) show ?thesis
        by simp
    qed
    ultimately show ?thesis by blast
  qed
  from 1 2 3 4 show ?thesis by blast
qed

lemma sample_state2_rows:
  "solar_panels sample_state2 =
    [\<lparr>sp_id = 1, sp_name = ''P1'', sp_power = Some 10, sp_efficiency = Some 90,
        sp_status = Some ''online'', sp_temp = Some 40, sp_dirt_level = Some 5,
        sp_dust_accumulation = Some ''low'', sp_timestamp = 1762000000000000\<rparr>,
      \<lparr>sp_id = 2, sp_name = ''P2'', sp_power = Some 8, sp_efficiency = Some 70,
         sp_status = Some ''online'', sp_temp = Some 45, sp_dirt_level = Some 35,
         sp_dust_accumulation = Some ''high'', sp_timestamp = 1762000000000001\<rparr>,
      \<lparr>sp_id = 3, sp_name = ''P1'', sp_power = Some 10, sp_efficiency = Some 90,
         sp_status = Some ''online'', sp_temp = Some 40, sp_dirt_level = Some 5,
         sp_dust_accumulation = Some ''low'', sp_timestamp = 1762000060000000\<rparr>]"
  by (simp add: example_simps sample_state2_def sample_batch2_def later_clock_def)

text \<open>
  The theorem at the three rows of \<open>sample_state2\<close>: the newer row of P1 (id 3), then the
  row of P2 (id 2); the older row of P1 (id 1) is not after its newer one.
\<close>

theorem latestPerPanel_spec_witness:
  "map sp_id (latestPerPanel 100 (solar_panels sample_state2)) = [3, 2] \<and>
   length (latestPerPanel 100 (solar_panels sample_state2)) \<le> 100 \<and>
   distinct (map sp_name (latestPerPanel 100 (solar_panels sample_state2))) \<and>
   sorted (map sp_name (latestPerPanel 100 (solar_panels sample_state2))) \<and>
   solar_panels sample_state2 ! 2 \<in> set (latestPerPanel 100 (solar_panels sample_state2)) \<and>
   solar_panels sample_state2 ! 0 \<in> set (solar_panels sample_state2) \<and>
   sp_name (solar_panels sample_state2 ! 0) = sp_name (solar_panels sample_state2 ! 2) \<and>
   sp_timestamp (solar_panels sample_state2 ! 0) \<le> sp_timestamp (solar_panels sample_state2 ! 2)"
proof -
  have ids: "map sp_id (latestPerPanel 100 (solar_panels sample_state2)) = [3, 2]"
    unfolding sample_state2_rows by (simp add: latestPerPanel_def)
  have r: "solar_panels sample_state2 ! 2 \<in> set (latestPerPanel 100 (solar_panels sample_state2))"
    unfolding sample_state2_rows by (simp add: latestPerPanel_def)
  have x: "solar_panels sample_state2 ! 0 \<in> set (solar_panels sample_state2)"
    unfolding sample_state2_rows by simp
  have n: "sp_name (solar_panels sample_state2 ! 0) = sp_name (solar_panels sample_state2 ! 2)"
    unfolding sample_state2_rows by simp
  from latestPerPanel_spec [of 100 "solar_panels sample_state2"] ids r x n show ?thesis
    by blast
qed

lemma sorted_desc_sort_key:
  fixes g :: "'a \<Rightarrow> int"
  shows "sorted_wrt (\<lambda>a b. g b \<le> g a) (sort_key (\<lambda>r. - g r) xs)"
proof -
  have "sorted (map (\<lambda>r. - g r) (sort_key (\<lambda>r. - g r) xs))" by (rule sorted_sort_key)
  then show ?thesis by (simp add: sorted_map)
qed

lemma strict_desc_sort_key:
  fixes g :: "'a \<Rightarrow> int"
  assumes "distinct (map g xs)"
  shows "sorted_wrt (\<lambda>a b. g b < g a) (sort_key (\<lambda>r. - g r) xs)"
proof -
  let ?ys = "sort_key (\<lambda>r. - g r) xs"
  have "sorted (map g (rev ?ys))"
    using sorted_desc_sort_key[of g xs] by (simp add: sorted_map sorted_wrt_rev)
  moreover have "distinct (map g (rev ?ys))"
    using assms by (simp add: distinct_map)
  ultimately have "sorted_wrt (<) (map g (rev ?ys))"
    by (simp add: strict_sorted_iff)
  then show ?thesis
    by (simp add: sorted_wrt_map sorted_wrt_rev)
qed

text \<open>
  Claim C6, amended. The history query returns only rows of the table with the given
  name, at most \<open>limit\<close> of them, newest first: no row comes before one with a greater
  \<^verbatim>\<open>timestamp\<close>. The order is strictly descending when the rows of that name have
  pairwise different timestamps. An absent limit is the limit 10.
\<close>

theorem historyFor_spec:
  "(\<forall>r\<in>set (historyFor nm limit rows). r \<in> set rows \<and> sp_name r = nm) \<and>
   length (historyFor nm limit rows) \<le> limit \<and>
   sorted_wrt (\<lambda>a b. sp_timestamp b \<le> sp_timestamp a) (historyFor nm limit rows) \<and>
   (distinct (map sp_timestamp (filter (\<lambda>r. sp_name r = nm) rows)) \<longrightarrow>
      sorted_wrt (\<lambda>a b. sp_timestamp b < sp_timestamp a) (historyFor nm limit rows)) \<and>
   get_panel e s nm JUndefined = get_panel e s nm (JNum (Fin 10))"
proof -
  have 1: "\<forall>r\<in>set (historyFor nm limit rows). r \<in> set rows \<and> sp_name r = nm"
    by (auto simp: historyFor_def dest: in_set_takeD)
  have 2: "length (historyFor nm limit rows) \<le> limit"
    by (simp add: historyFor_def)
  have 3: "sorted_wrt (\<lambda>a b. sp_timestamp b \<le> sp_timestamp a) (historyFor nm limit rows)"
    unfolding historyFor_def by (rule sorted_wrt_take) (rule sorted_desc_sort_key)
  have 4: "sorted_wrt (\<lambda>a b. sp_timestamp b < sp_timestamp a) (historyFor nm limit rows)"
    if "distinct (map sp_timestamp (filter (\<lambda>r. sp_name r = nm) rows))"
    unfolding historyFor_def by (rule sorted_wrt_take) (rule strict_desc_sort_key[OF that])
  have 5: "get_panel e s nm JUndefined = get_panel e s nm (JNum (Fin 10))"
    by (simp add: get_panel_def)
  from 1 2 3 4 5 show ?thesis by blast
qed

text \<open>
  The theorem at \<open>sample_state2\<close>: the two rows of P1, the newer first.
\<close>

theorem historyFor_spec_witness:
  "solar_panels sample_state2 ! 2 \<in> set (historyFor ''P1'' 10 (solar_panels sample_state2)) \<and>
   solar_panels sample_state2 ! 2 \<in> set (solar_panels sample_state2) \<and>
   sp_name (solar_panels sample_state2 ! 2) = ''P1'' \<and>
   map sp_id (historyFor ''P1'' 10 (solar_panels sample_state2)) = [3, 1] \<and>
   length (historyFor ''P1'' 10 (solar_panels sample_state2)) \<le> 10 \<and>
   distinct (map sp_timestamp (filter (\<lambda>r. sp_name r = ''P1'') (solar_panels sample_state2))) \<and>
   sorted_wrt (\<lambda>a b. sp_timestamp b < sp_timestamp a)
     (historyFor ''P1'' 10 (solar_panels sample_state2)) \<and>
   get_panel example_env sample_state2 ''P1'' JUndefined =
     get_panel example_env sample_state2 ''P1'' (JNum (Fin 10))"
proof -
  have r: "solar_panels sample_state2 ! 2 \<in> set (historyFor ''P1'' 10 (solar_panels sample_state2))"
    unfolding sample_state2_rows by (simp add: historyFor_def)
  have ids: "map sp_id (historyFor ''P1'' 10 (solar_panels sample_state2)) = [3, 1]"
    unfolding sample_state2_rows by (simp add: historyFor_def)
  have d: "distinct (map sp_timestamp (filter (\<lambda>r. sp_name r = ''P1'') (solar_panels sample_state2)))"
    unfolding sample_state2_rows by simp
  from historyFor_spec [of "''P1''" 10 "solar_panels sample_state2" example_env sample_state2]
    r ids d show ?thesis
    by blast
qed

text \<open>
  Claim C6 as stated fails where two rows of one name carry the same \<^verbatim>\<open>timestamp\<close>: in
  \<open>twin_state\<close> the history of P1 is two rows of one instant, which is not strictly
  descending.
\<close>

lemma twin_state_rows:
  "solar_panels twin_state =
    [\<lparr>sp_id = 1, sp_name = ''P1'', sp_power = Some 10, sp_efficiency = Some 90,
        sp_status = Some ''online'', sp_temp = Some 40, sp_dirt_level = Some 5,
        sp_dust_accumulation = Some ''low'', sp_timestamp = 1762000000000000\<rparr>,
      \<lparr>sp_id = 2, sp_name = ''P1'', sp_power = Some 10, sp_efficiency = Some 90,
         sp_status = Some ''online'', sp_temp = Some 40, sp_dirt_level = Some 5,
         sp_dust_accumulation = Some ''low'', sp_timestamp = 1762000000000000\<rparr>]"
  by (simp add: example_simps twin_state_def twin_batch_def frozen_clock_def)

theorem history_not_strict_counterexample:
  "snd (get_panel example_env twin_state ''P1'' JUndefined) =
     PanelHistory ''P1'' 2 (historyFor ''P1'' 10 (solar_panels twin_state)) \<and>
   map sp_timestamp (historyFor ''P1'' 10 (solar_panels twin_state)) =
     [1762000000000000, 1762000000000000] \<and>
   \<not> sorted_wrt (\<lambda>a b. sp_timestamp b < sp_timestamp a)
        (historyFor ''P1'' 10 (solar_panels twin_state))"
  by (simp add: get_panel_def example_env_def integral_in_def historyFor_def
        twin_state_rows)

text \<open>
  Claim C9, amended. With the limit absent (or the empty string) the snapshot request is
  the request with limit 100, and it succeeds with the latest-per-panel rows for 100
  whenever the store reads the Number 100 as 100. Any other value reaches the store as it
  is: when the store cannot read it as an integer, the request fails with the 500
  response.
\<close>

theorem absent_limit_defaults:
  "get_data e clk s JUndefined = get_data e clk s (JNum (Fin 100)) \<and>
   get_data e clk s (JStr []) = get_data e clk s (JNum (Fin 100)) \<and>
   (bigint_in e (JNum (Fin 100)) = Some 100 \<longrightarrow>
      get_data e clk s JUndefined =
        (s, SolarData (length (latestPerPanel 100 (solar_panels s)))
              (latestPerPanel 100 (solar_panels s)) (js_now clk 0))) \<and>
   (truthy q \<and> bigint_in e q = None \<longrightarrow>
      get_data e clk s q = (s, ServerError StoreError))"
proof -
  have absent: "get_data e clk s JUndefined = get_data e clk s (JNum (Fin 100))"
    by (simp add: get_data_def)
  have empty: "get_data e clk s (JStr []) = get_data e clk s (JNum (Fin 100))"
    by (simp add: get_data_def)
  have served: "get_data e clk s JUndefined =
        (s, SolarData (length (latestPerPanel 100 (solar_panels s)))
              (latestPerPanel 100 (solar_panels s)) (js_now clk 0))"
    if "bigint_in e (JNum (Fin 100)) = Some 100"
    using that by (simp add: get_data_def Let_def)
  have rejected: "get_data e clk s q = (s, ServerError StoreError)"
    if "truthy q \<and> bigint_in e q = None"
    using that by (simp add: get_data_def)
  from absent empty served rejected show ?thesis by blast
qed

text \<open>
  The theorem at \<open>sample_state2\<close>, with the limit absent and with the limit \<^verbatim>\<open>ten\<close>.
\<close>

theorem absent_limit_defaults_witness:
  "get_data example_env later_clock sample_state2 JUndefined =
     get_data example_env later_clock sample_state2 (JNum (Fin 100)) \<and>
   get_data example_env later_clock sample_state2 (JStr []) =
     get_data example_env later_clock sample_state2 (JNum (Fin 100)) \<and>
   bigint_in example_env (JNum (Fin 100)) = Some 100 \<and>
   get_data example_env later_clock sample_state2 JUndefined =
     (sample_state2, SolarData (length (latestPerPanel 100 (solar_panels sample_state2)))
        (latestPerPanel 100 (solar_panels sample_state2)) (js_now later_clock 0)) \<and>
   truthy (JStr ''ten'') \<and> bigint_in example_env (JStr ''ten'') = None \<and>
   get_data example_env later_clock sample_state2 (JStr ''ten'') =
     (sample_state2, ServerError StoreError)"
proof -
  have h1: "bigint_in example_env (JNum (Fin 100)) = Some 100"
    by (simp add: example_env_def integral_in_def)
  have h2: "truthy (JStr ''ten'') \<and> bigint_in example_env (JStr ''ten'') = None"
    by (simp add: example_env_def integral_in_def decimal_def)
  from absent_limit_defaults [of example_env later_clock sample_state2 "JStr ''ten''"] h1 h2
  show ?thesis by blast
qed

text \<open>
  Claim C9 as stated fails at the limit \<^verbatim>\<open>abc\<close>: the request is answered with the 500
  response, where the limit 100 gives the two latest rows.
\<close>

theorem invalid_limit_counterexample:
  "get_data example_env later_clock sample_state2 (JStr ''abc'') =
     (sample_state2, ServerError StoreError) \<and>
   get_data example_env later_clock sample_state2 (JNum (Fin 100)) =
     (sample_state2, SolarData 2 (latestPerPanel 100 (solar_panels sample_state2)) 1762000060000) \<and>
   status (ServerError StoreError) = 500 \<and> \<not> success (ServerError StoreError)"
proof -
  have "length (latestPerPanel 100 (solar_panels sample_state2)) = 2"
    unfolding sample_state2_rows by (simp add: latestPerPanel_def)
  then show ?thesis
    by (simp add: get_data_def example_env_def integral_in_def decimal_def later_clock_def)
qed

subsection \<open>Values of \<^verbatim>\<open>dirtLevel\<close> that are no Number\<close>

lemma count_where_skip:
  assumes "get_prop p ''dirtLevel'' = Inr d" and "t d = Inr False"
  shows "count_where t (xs @ p # ys) = count_where t (xs @ ys)"
  using assms by (induction xs) (auto split: sum.splits)

text \<open>
  Claim C10, amended. An element whose \<^verbatim>\<open>dirtLevel\<close> is missing (\<^verbatim>\<open>undefined\<close>), or is a
  value the runtime converts to NaN, is counted by neither filter: both counts are those
  of the batch without it. An element whose \<^verbatim>\<open>dirtLevel\<close> is \<^verbatim>\<open>null\<close> is counted as clean,
  since \<^verbatim>\<open>null\<close> converts to 0.
\<close>

theorem dirtLevel_not_a_number:
  "(get_prop p ''dirtLevel'' = Inr d \<and> (d = JUndefined \<or> ToNumber e d = Inr NaN) \<longrightarrow>
      \<not> counts_lt e 10 p \<and> \<not> counts_ge e 30 p \<and>
      cleanCount e (xs @ p # ys) = cleanCount e (xs @ ys) \<and>
      dirtyCount e (xs @ p # ys) = dirtyCount e (xs @ ys)) \<and>
   (get_prop p ''dirtLevel'' = Inr JNull \<longrightarrow> counts_lt e 10 p \<and> \<not> counts_ge e 30 p)"
proof -
  have nan: "\<not> counts_lt e 10 p \<and> \<not> counts_ge e 30 p \<and>
      cleanCount e (xs @ p # ys) = cleanCount e (xs @ ys) \<and>
      dirtyCount e (xs @ p # ys) = dirtyCount e (xs @ ys)"
    if p: "get_prop p ''dirtLevel'' = Inr d" and d: "d = JUndefined \<or> ToNumber e d = Inr NaN"
  proof -
    from d have n: "ToNumber e d = Inr NaN" by auto
    have lt: "js_lt e d 10 = Inr False" and ge: "js_ge e d 30 = Inr False"
      using n by (simp_all add: js_lt_def js_ge_def)
    from p lt ge show ?thesis
      by (simp add: counts_lt_def counts_ge_def cleanCount_def dirtyCount_def count_where_skip)
  qed
  have null: "counts_lt e 10 p \<and> \<not> counts_ge e 30 p"
    if "get_prop p ''dirtLevel'' = Inr JNull"
    using that by (simp add: counts_lt_def counts_ge_def js_lt_def js_ge_def)
  from nan null show ?thesis by blast
qed

text \<open>
  The theorem at a panel without \<^verbatim>\<open>dirtLevel\<close> between the clean and the dirty panel,
  and at the panel with \<^verbatim>\<open>dirtLevel: null\<close>.
\<close>

theorem dirtLevel_not_a_number_witness:
  "get_prop no_dirt_panel ''dirtLevel'' = Inr JUndefined \<and>
   \<not> counts_lt example_env 10 no_dirt_panel \<and> \<not> counts_ge example_env 30 no_dirt_panel \<and>
   cleanCount example_env ([sample_P1] @ no_dirt_panel # [sample_P2]) = Inr 1 \<and>
   dirtyCount example_env ([sample_P1] @ no_dirt_panel # [sample_P2]) = Inr 1 \<and>
   get_prop null_dirt_panel ''dirtLevel'' = Inr JNull \<and>
   counts_lt example_env 10 null_dirt_panel \<and> \<not> counts_ge example_env 30 null_dirt_panel"
proof -
  have h1: "get_prop no_dirt_panel ''dirtLevel'' = Inr JUndefined"
    by (simp add: no_dirt_panel_def)
  have h2: "get_prop null_dirt_panel ''dirtLevel'' = Inr JNull"
    by (simp add: null_dirt_panel_def)
  have c: "cleanCount example_env ([sample_P1] @ [sample_P2]) = Inr 1"
    "dirtyCount example_env ([sample_P1] @ [sample_P2]) = Inr 1"
    by (simp_all add: example_simps)
  from dirtLevel_not_a_number [of no_dirt_panel JUndefined example_env "[sample_P1]" "[sample_P2]"]
    dirtLevel_not_a_number [of null_dirt_panel JNull example_env "[]" "[]"] h1 h2 c
  show ?thesis by simp
qed

text \<open>
  Claim C10 as stated fails at \<^verbatim>\<open>dirtLevel: null\<close>, which is no Number: the panel is
  counted as clean, and the daily row of its ingest has \<^verbatim>\<open>clean_panels = 1\<close>.
\<close>

theorem null_dirtLevel_counterexample:
  "get_prop null_dirt_panel ''dirtLevel'' = Inr JNull \<and>
   cleanCount example_env [null_dirt_panel] = Inr 1 \<and>
   map ds_clean_panels
     (daily_stats (fst (save_data example_env sample_clock initDatabase null_dirt_batch))) =
   [Some 1]"
  by (simp add: example_simps null_dirt_batch_def null_dirt_panel_def)

subsection \<open>Cleanup\<close>

declare show_nat.simps [simp del]

lemma digit_char:
  fixes d :: nat
  assumes "d < 10"
  shows "CHR ''0'' \<le> ''0123456789'' ! d" and "''0123456789'' ! d \<le> CHR ''9''"
    and "(of_char (''0123456789'' ! d) :: nat) - 48 = d"
    and "''0123456789'' ! d \<noteq> CHR 0x27"
    and "''0123456789'' ! d = CHR ''0'' \<longleftrightarrow> d = 0"
proof -
  from assms have "d = 0 \<or> d = 1 \<or> d = 2 \<or> d = 3 \<or> d = 4 \<or> d = 5 \<or> d = 6 \<or> d = 7 \<or> d = 8 \<or> d = 9"
    by arith
  then show "CHR ''0'' \<le> ''0123456789'' ! d" and "''0123456789'' ! d \<le> CHR ''9''"
    and "(of_char (''0123456789'' ! d) :: nat) - 48 = d"
    and "''0123456789'' ! d \<noteq> CHR 0x27"
    and "''0123456789'' ! d = CHR ''0'' \<longleftrightarrow> d = 0"
    by (auto simp: less_eq_char_def)
qed

lemma digits_value_append:
  assumes "CHR ''0'' \<le> c" and "c \<le> CHR ''9''"
  shows "digits_value acc (xs @ [c]) =
         map_option (\<lambda>v. 10 * v + (of_char c - 48)) (digits_value acc xs)"
  using assms by (induction xs arbitrary: acc) auto

lemma digits_value_show_nat: "digits_value 0 (show_nat n) = Some n"
proof (induction n rule: show_nat.induct)
  case (1 n)
  show ?case
  proof (cases "n < 10")
    case True
    then show ?thesis
      by (subst show_nat.simps) (simp add: digit_char)
  next
    case False
    have d: "n mod 10 < 10" by simp
    from False "1.IH" have "digits_value 0 (show_nat (n div 10)) = Some (n div 10)" by simp
    with False show ?thesis
      by (subst show_nat.simps) (simp add: digits_value_append digit_char[OF d])
  qed
qed

lemma show_nat_not_Nil: "show_nat n \<noteq> []"
  by (subst show_nat.simps) simp

lemma hd_show_nat: "hd (show_nat n) = CHR ''0'' \<longleftrightarrow> n = 0"
proof (induction n rule: show_nat.induct)
  case (1 n)
  show ?case
  proof (cases "n < 10")
    case True
    then show ?thesis
      by (subst show_nat.simps) (simp add: digit_char)
  next
    case False
    then have "n div 10 \<noteq> 0" by simp
    with False "1.IH" have "hd (show_nat (n div 10)) \<noteq> CHR ''0''" by simp
    with False show ?thesis
      by (subst show_nat.simps) (simp add: show_nat_not_Nil)
  qed
qed

lemma show_nat_0: "show_nat 0 = ''0''"
  by (subst show_nat.simps) simp

lemma canonical_nat_show_nat: "canonical_nat (show_nat n) = Some n"
proof (cases "show_nat n")
  case Nil
  with show_nat_not_Nil show ?thesis by simp
next
  case (Cons c cs)
  have "\<not> (c = CHR ''0'' \<and> cs \<noteq> [])"
  proof
    assume a: "c = CHR ''0'' \<and> cs \<noteq> []"
    with Cons have "hd (show_nat n) = CHR ''0''" by simp
    then have "n = 0" by (simp add: hd_show_nat)
    with Cons a show False by (simp add: show_nat_0)
  qed
  with Cons digits_value_show_nat[of n] show ?thesis
    by (simp add: canonical_nat_def)
qed

lemma days_literal_show_nat: "days_literal (show_nat n @ '' days'') = Some n"
  by (simp add: days_literal_def canonical_nat_show_nat)

lemma show_nat_no_quote: "CHR 0x27 \<notin> set (show_nat n)"
proof (induction n rule: show_nat.induct)
  case (1 n)
  show ?case
  proof (cases "n < 10")
    case True
    with digit_char(4)[of n] show ?thesis
      by (subst show_nat.simps) auto
  next
    case False
    have d: "n mod 10 < 10" by simp
    from False "1.IH" have "CHR 0x27 \<notin> set (show_nat (n div 10))" by simp
    with False digit_char(4)[OF d] show ?thesis
      by (subst show_nat.simps) auto
  qed
qed

lemma interval_cutoff_show_nat:
  "interval_cutoff e now (show_nat n @ '' days'') = days_before now n"
  by (simp add: interval_cutoff_def days_literal_show_nat)

lemma delete_old_plain:
  assumes "CHR 0x27 \<notin> set days"
  shows "delete_old e clk s days =
     (case interval_cutoff e (pg_now clk 0) (days @ '' days'') of
        None \<Rightarrow> (s, ServerError StoreError)
      | Some c \<Rightarrow>
          (s\<lparr>solar_panels := filter (\<lambda>r. \<not> sp_timestamp r < c) (solar_panels s)\<rparr>,
           Deleted (length (filter (\<lambda>r. sp_timestamp r < c) (solar_panels s))) days))"
  using assms
  by (simp add: delete_old_def purgeOlderThan_def delete_before_def split: option.splits)

text \<open>
  Claim C7, amended. The cleanup handler does not validate \<^verbatim>\<open>days\<close>: no value is answered
  with the 400 response. For a value without a quote, the request fails with the 500
  response when the store rejects the interval, and otherwise deletes the rows before the
  instant the store computes from it, whatever its sign.
\<close>

theorem cleanup_not_validated:
  "snd (delete_old e clk s days) \<noteq> BadRequest \<and>
   status (snd (delete_old e clk s days)) \<noteq> 400 \<and>
   (CHR 0x27 \<notin> set days \<longrightarrow>
      delete_old e clk s days =
        (case interval_cutoff e (pg_now clk 0) (days @ '' days'') of
           None \<Rightarrow> (s, ServerError StoreError)
         | Some c \<Rightarrow>
             (s\<lparr>solar_panels := filter (\<lambda>r. \<not> sp_timestamp r < c) (solar_panels s)\<rparr>,
              Deleted (length (filter (\<lambda>r. sp_timestamp r < c) (solar_panels s))) days)))"
proof -
  have "snd (delete_old e clk s days) \<noteq> BadRequest \<and>
        status (snd (delete_old e clk s days)) \<noteq> 400"
    by (simp add: delete_old_def split: prod.splits sum.splits)
  with delete_old_plain show ?thesis by blast
qed

text \<open>
  The theorem at \<^verbatim>\<open>days = abc\<close>: the store rejects the interval, the response is 500.
\<close>

theorem cleanup_not_validated_witness:
  "snd (delete_old example_env later_clock sample_state2 ''abc'') \<noteq> BadRequest \<and>
   status (snd (delete_old example_env later_clock sample_state2 ''abc'')) \<noteq> 400 \<and>
   CHR 0x27 \<notin> set ''abc'' \<and>
   interval_cutoff example_env (pg_now later_clock 0) (''abc'' @ '' days'') = None \<and>
   delete_old example_env later_clock sample_state2 ''abc'' =
     (sample_state2, ServerError StoreError)"
proof -
  have c: "interval_cutoff example_env (pg_now later_clock 0) (''abc'' @ '' days'') = None"
    by (simp add: interval_cutoff_def days_literal_def canonical_nat_def example_env_def
          decimal_def)
  from cleanup_not_validated [of example_env later_clock sample_state2 "''abc''"] c
  show ?thesis by simp
qed

text \<open>
  Claim C7 as stated fails at \<^verbatim>\<open>days = -1\<close>: the value is part of the statement text, the
  request succeeds, and all three rows of \<open>sample_state2\<close> are deleted, the newest
  included.
\<close>

theorem negative_days_counterexample:
  "cleanup_sql ''-1'' =
     ''DELETE FROM solar_panels WHERE timestamp < NOW() - INTERVAL '' @ [CHR 0x27] @
     ''-1 days'' @ [CHR 0x27] @ '' RETURNING *'' \<and>
   delete_old example_env later_clock sample_state2 ''-1'' =
     (sample_state2\<lparr>solar_panels := []\<rparr>, Deleted 3 ''-1'') \<and>
   status (Deleted 3 ''-1'') = 200 \<and> success (Deleted 3 ''-1'')"
  by (simp add: cleanup_sql_def delete_old_def purgeOlderThan_def delete_before_def
        interval_cutoff_def days_literal_def canonical_nat_def
        example_env_def decimal_def later_clock_def us_per_day_def sample_state2_rows)

lemma deleted_count_le:
  assumes "CHR 0x27 \<notin> set days" and "delete_old e clk s days = (s', Deleted cnt d)"
  shows "cnt \<le> length (solar_panels s)"
  using assms by (auto simp: delete_old_plain split: option.splits)

lemma delete_old_days:
  "delete_old e clk s (show_nat n) =
     (case days_before (pg_now clk 0) n of
        None \<Rightarrow> (s, ServerError StoreError)
      | Some c \<Rightarrow>
          (s\<lparr>solar_panels := filter (\<lambda>r. \<not> sp_timestamp r < c) (solar_panels s)\<rparr>,
           Deleted (length (filter (\<lambda>r. sp_timestamp r < c) (solar_panels s))) (show_nat n)))"
  by (simp add: delete_old_plain show_nat_no_quote interval_cutoff_show_nat)

text \<open>
  Claim C8, amended. For a non-negative integer \<open>n\<close> of days whose instant \<open>n\<close> days before
  now is one the store can compute (\<open>n\<close> at most \<open>2^31 - 1\<close>, the instant not before the
  store's first timestamp), cleanup keeps exactly the rows that are not older than now
  minus \<open>n\<close> days, in their order, and reports the number of rows it removed; the daily
  rows are untouched. With \<open>n = 0\<close> the rows strictly before now are removed. A second
  cleanup right after reports at most the number of rows the first one left. For every
  other \<open>n\<close> the store rejects the statement: the request fails with the 500 response and
  removes nothing.
\<close>

theorem purge_older_than:
  "(int n \<le> 2147483647 \<and> min_timestamp \<le> pg_now clk 0 - int n * us_per_day \<longrightarrow>
      (\<exists>s' cnt. delete_old e clk s (show_nat n) = (s', Deleted cnt (show_nat n)) \<and>
         solar_panels s' =
           filter (\<lambda>r. \<not> sp_timestamp r < pg_now clk 0 - int n * us_per_day) (solar_panels s) \<and>
         cnt = length (filter (\<lambda>r. sp_timestamp r < pg_now clk 0 - int n * us_per_day)
                        (solar_panels s)) \<and>
         cnt + length (solar_panels s') = length (solar_panels s) \<and>
         daily_stats s' = daily_stats s \<and>
         (n = 0 \<longrightarrow>
            solar_panels s' = filter (\<lambda>r. \<not> sp_timestamp r < pg_now clk 0) (solar_panels s)) \<and>
         (\<forall>clk2 s'' cnt2.
            delete_old e clk2 s' (show_nat n) = (s'', Deleted cnt2 (show_nat n)) \<longrightarrow>
            cnt2 \<le> length (solar_panels s')))) \<and>
   (\<not> (int n \<le> 2147483647 \<and> min_timestamp \<le> pg_now clk 0 - int n * us_per_day) \<longrightarrow>
      delete_old e clk s (show_nat n) = (s, ServerError StoreError))"
proof (intro conjI impI)
  assume ok: "int n \<le> 2147483647 \<and> min_timestamp \<le> pg_now clk 0 - int n * us_per_day"
  let ?c = "pg_now clk 0 - int n * us_per_day"
  let ?s' = "s\<lparr>solar_panels := filter (\<lambda>r. \<not> sp_timestamp r < ?c) (solar_panels s)\<rparr>"
  let ?cnt = "length (filter (\<lambda>r. sp_timestamp r < ?c) (solar_panels s))"
  from ok have cutoff: "days_before (pg_now clk 0) n = Some ?c"
    by (simp add: days_before_def)
  have run: "delete_old e clk s (show_nat n) = (?s', Deleted ?cnt (show_nat n))"
    by (simp add: delete_old_days cutoff)
  have total: "?cnt + length (solar_panels ?s') = length (solar_panels s)"
    using sum_length_filter_compl[of "\<lambda>r. sp_timestamp r < ?c" "solar_panels s"] by simp
  have zero: "n = 0 \<longrightarrow>
      solar_panels ?s' = filter (\<lambda>r. \<not> sp_timestamp r < pg_now clk 0) (solar_panels s)"
    by simp
  have again: "cnt2 \<le> length (solar_panels ?s')"
    if "delete_old e clk2 ?s' (show_nat n) = (s'', Deleted cnt2 (show_nat n))" for clk2 s'' cnt2
    using show_nat_no_quote that by (rule deleted_count_le)
  from run total zero again
  show "\<exists>s' cnt. delete_old e clk s (show_nat n) = (s', Deleted cnt (show_nat n)) \<and>
         solar_panels s' =
           filter (\<lambda>r. \<not> sp_timestamp r < pg_now clk 0 - int n * us_per_day) (solar_panels s) \<and>
         cnt = length (filter (\<lambda>r. sp_timestamp r < pg_now clk 0 - int n * us_per_day)
                        (solar_panels s)) \<and>
         cnt + length (solar_panels s') = length (solar_panels s) \<and>
         daily_stats s' = daily_stats s \<and>
         (n = 0 \<longrightarrow>
            solar_panels s' = filter (\<lambda>r. \<not> sp_timestamp r < pg_now clk 0) (solar_panels s)) \<and>
         (\<forall>clk2 s'' cnt2.
            delete_old e clk2 s' (show_nat n) = (s'', Deleted cnt2 (show_nat n)) \<longrightarrow>
            cnt2 \<le> length (solar_panels s'))"
    by (intro exI[of _ ?s'] exI[of _ ?cnt]) auto
next
  assume "\<not> (int n \<le> 2147483647 \<and> min_timestamp \<le> pg_now clk 0 - int n * us_per_day)"
  then have "days_before (pg_now clk 0) n = None"
    by (simp add: days_before_def)
  then show "delete_old e clk s (show_nat n) = (s, ServerError StoreError)"
    by (simp add: delete_old_days)
qed

lemmas cleanup_simps =
  delete_old_def purgeOlderThan_def delete_before_def interval_cutoff_def days_literal_def
  canonical_nat_def days_before_def min_timestamp_def us_per_day_def sample_state2_rows

text \<open>
  The theorem on \<open>sample_state2\<close>: seven days and thirty seconds after the first ingest,
  \<^verbatim>\<open>days = 7\<close> removes the two rows of the first ingest and keeps the one written a
  minute later, and a second cleanup removes none; \<^verbatim>\<open>days = 0\<close> at the instant of the
  newest row removes the two older rows; \<^verbatim>\<open>days = 4000000\<close> is rejected.
\<close>

theorem purge_older_than_witness:
  "int 7 \<le> 2147483647 \<and> min_timestamp \<le> pg_now week_clock 0 - int 7 * us_per_day \<and>
   show_nat 7 = ''7'' \<and>
   delete_old example_env week_clock sample_state2 ''7'' =
     (sample_state2\<lparr>solar_panels := [solar_panels sample_state2 ! 2]\<rparr>, Deleted 2 ''7'') \<and>
   [solar_panels sample_state2 ! 2] =
     filter (\<lambda>r. \<not> sp_timestamp r < pg_now week_clock 0 - int 7 * us_per_day)
       (solar_panels sample_state2) \<and>
   2 + length [solar_panels sample_state2 ! 2] = length (solar_panels sample_state2) \<and>
   delete_old example_env week_clock
     (sample_state2\<lparr>solar_panels := [solar_panels sample_state2 ! 2]\<rparr>) ''7'' =
     (sample_state2\<lparr>solar_panels := [solar_panels sample_state2 ! 2]\<rparr>, Deleted 0 ''7'') \<and>
   (0::nat) \<le> length [solar_panels sample_state2 ! 2] \<and>
   show_nat 0 = ''0'' \<and> min_timestamp \<le> pg_now later_clock 0 - int 0 * us_per_day \<and>
   delete_old example_env later_clock sample_state2 ''0'' =
     (sample_state2\<lparr>solar_panels :=
        filter (\<lambda>r. \<not> sp_timestamp r < pg_now later_clock 0) (solar_panels sample_state2)\<rparr>,
      Deleted 2 ''0'') \<and>
   \<not> (int 4000000 \<le> 2147483647 \<and>
      min_timestamp \<le> pg_now week_clock 0 - int 4000000 * us_per_day) \<and>
   show_nat 4000000 = ''4000000'' \<and>
   delete_old example_env week_clock sample_state2 ''4000000'' =
     (sample_state2, ServerError StoreError)"
proof -
  have n7: "show_nat 7 = ''7''" and n0: "show_nat 0 = ''0''"
    and big: "show_nat 4000000 = ''4000000''"
    by (simp_all add: show_nat.simps)
  have ok7: "int 7 \<le> 2147483647 \<and> min_timestamp \<le> pg_now week_clock 0 - int 7 * us_per_day"
    by (simp add: min_timestamp_def week_clock_def us_per_day_def)
  have ok0: "int 0 \<le> 2147483647 \<and> min_timestamp \<le> pg_now later_clock 0 - int 0 * us_per_day"
    by (simp add: min_timestamp_def later_clock_def us_per_day_def)
  have out: "\<not> (int 4000000 \<le> 2147483647 \<and>
      min_timestamp \<le> pg_now week_clock 0 - int 4000000 * us_per_day)"
    by (simp add: min_timestamp_def week_clock_def us_per_day_def)
  have first: "delete_old example_env week_clock sample_state2 ''7'' =
     (sample_state2\<lparr>solar_panels := [solar_panels sample_state2 ! 2]\<rparr>, Deleted 2 ''7'')"
    by (simp add: cleanup_simps week_clock_def)
  have second: "delete_old example_env week_clock
     (sample_state2\<lparr>solar_panels := [solar_panels sample_state2 ! 2]\<rparr>) ''7'' =
     (sample_state2\<lparr>solar_panels := [solar_panels sample_state2 ! 2]\<rparr>, Deleted 0 ''7'')"
    by (simp add: cleanup_simps week_clock_def)
  from purge_older_than [of 7 week_clock example_env sample_state2] ok7 obtain s' cnt where
    run: "delete_old example_env week_clock sample_state2 (show_nat 7) =
            (s', Deleted cnt (show_nat 7))" and
    rows: "solar_panels s' =
       filter (\<lambda>r. \<not> sp_timestamp r < pg_now week_clock 0 - int 7 * us_per_day)
         (solar_panels sample_state2)" and
    total: "cnt + length (solar_panels s') = length (solar_panels sample_state2)" and
    twice: "\<forall>clk2 s'' cnt2.
        delete_old example_env clk2 s' (show_nat 7) = (s'', Deleted cnt2 (show_nat 7)) \<longrightarrow>
        cnt2 \<le> length (solar_panels s')"
    by blast
  from run first n7 have s': "s' = sample_state2\<lparr>solar_panels := [solar_panels sample_state2 ! 2]\<rparr>"
    and cnt: "cnt = 2" by simp_all
  from rows s' have c4: "[solar_panels sample_state2 ! 2] =
     filter (\<lambda>r. \<not> sp_timestamp r < pg_now week_clock 0 - int 7 * us_per_day)
       (solar_panels sample_state2)"
    by simp
  from total s' cnt have c5: "2 + length [solar_panels sample_state2 ! 2] =
     length (solar_panels sample_state2)"
    by simp
  from twice second s' n7 have c7: "(0::nat) \<le> length [solar_panels sample_state2 ! 2]"
    by simp
  have zero:"delete_old example_env later_clock sample_state2 ''0'' =
     (sample_state2\<lparr>solar_panels :=
        filter (\<lambda>r. \<not> sp_timestamp r < pg_now later_clock 0) (solar_panels sample_state2)\<rparr>,
      Deleted 2 ''0'')"
    by (simp add: cleanup_simps later_clock_def)
  from purge_older_than [of 4000000 week_clock example_env sample_state2] out big
  have rejected: "delete_old example_env week_clock sample_state2 ''4000000'' =
     (sample_state2, ServerError StoreError)"
    by simp
  from ok7 ok0 n7 n0 big first c4 c5 second c7 zero out rejected show ?thesis
    by (intro conjI) simp_all
qed

text \<open>
  Claim C8 as stated fails at \<^verbatim>\<open>days = 3000000\<close>, a non-negative integer: the instant
  three million days before now is before the store's first timestamp, the store
  rejects the statement, and the request is answered with the 500 response and no count.
\<close>

theorem purge_out_of_range_counterexample:
  "show_nat 3000000 = ''3000000'' \<and>
   pg_now later_clock 0 - int 3000000 * us_per_day < min_timestamp \<and>
   delete_old example_env later_clock sample_state2 ''3000000'' =
     (sample_state2, ServerError StoreError) \<and>
   status (ServerError StoreError) = 500 \<and> \<not> success (ServerError StoreError)"
  by (simp add: show_nat.simps delete_old_def purgeOlderThan_def interval_cutoff_def
        days_literal_def canonical_nat_def days_before_def min_timestamp_def us_per_day_def
        later_clock_def)

end
